theory Spec2Isabelle
  imports Complex_Main "HOL-Library.Word"
begin

section \<open>JavaScript strings\<close>

text \<open>
  A JavaScript string is a sequence of UTF-16 code units. \<open>String.prototype.trim\<close>
  removes, from both ends, the code units that ECMAScript calls WhiteSpace or
  LineTerminator: TAB, LF, VT, FF, CR, SP, NBSP, the other space separators of the
  Basic Multilingual Plane, LS, PS and the byte order mark.
  A string is truthy exactly when it is not empty.
\<close>

type_synonym js_string = "16 word list"

definition js :: "string \<Rightarrow> js_string" where
  "js s = map (\<lambda>c. of_nat (of_char c)) s"

definition isWhiteSpace :: "16 word \<Rightarrow> bool" where
  "isWhiteSpace c \<longleftrightarrow>
     c \<in> {0x0009, 0x000A, 0x000B, 0x000C, 0x000D, 0x0020, 0x00A0, 0x1680,
          0x2028, 0x2029, 0x202F, 0x205F, 0x3000, 0xFEFF}
     \<or> (0x2000 \<le> c \<and> c \<le> 0x200A)"

definition trim :: "js_string \<Rightarrow> js_string" where
  "trim s = rev (dropWhile isWhiteSpace (rev (dropWhile isWhiteSpace s)))"

section \<open>types.ts\<close>

datatype TranslationDirection = HI_TO_EN | EN_TO_HI

datatype TranslationStatus = IDLE | LOADING | STREAMING | SUCCESS | ERROR

text \<open>
  The fields \<open>id\<close> and \<open>direction\<close> of the source are prefixed here, since one
  theory cannot give the same field name to two records. \<open>timestamp\<close> and
  \<open>lastModified\<close> hold \<open>Date.now()\<close>, an integer number of milliseconds.
\<close>

record TranslationHistoryItem =
  item_id :: js_string
  original :: js_string
  translated :: js_string
  timestamp :: int
  item_direction :: TranslationDirection

datatype ToastType = Toast_success | Toast_error | Toast_info

record ToastMessage =
  toast_id :: js_string
  toast_type :: ToastType
  message :: js_string

record Script =
  script_id :: js_string
  title :: js_string
  content :: js_string
  lastModified :: int

section \<open>services/geminiService.ts\<close>

definition SYSTEM_INSTRUCTION_HI_TO_EN :: js_string where
  \<open>SYSTEM_INSTRUCTION_HI_TO_EN = js ''
You are a world-class script localization expert and linguist. Your task is to translate Hindi/Hinglish video scripts into United States English.

CRITICAL INSTRUCTIONS FOR LONG-FORM SCRIPTS:
1. **NO SUMMARIZATION**: You must translate every single sentence. Do not shorten, summarize, or skip any part of the text. The output length must correspond to the input.
2. **STORYTELLING FLOW**: This is for a video script. The English output must flow naturally for a voice-over artist. Maintain the narrative arc, suspense, energy, and emotional beats of the original speaker.
3. **PUNCTUATION MASTERY**: Pay extreme attention to punctuation. Use commas, periods, em-dashes, and ellipses correctly to indicate the pauses, breathing room, and emphasis required for natural US speech.
4. **CONSISTENCY**: Ensure terminology and tone remain consistent from the first sentence to the last.
5. **CULTURAL TRANSLATION**: Convert Indian idioms to their closest natural US equivalents.
   - If the input is casual/slang (e.g., 'Kya bolti public', 'Bhai'), use American slang (e.g., 'What's up everyone', 'Bro/Dude').
   - If the input is formal, keep it professional.

Your goal is a flawless, ready-to-record US English script.
''\<close>

definition SYSTEM_INSTRUCTION_EN_TO_HI :: js_string where
  \<open>SYSTEM_INSTRUCTION_EN_TO_HI = js ''
You are a world-class script localization expert. Your task is to translate United States English video scripts into natural, conversational Hindi/Hinglish (India).

CRITICAL INSTRUCTIONS FOR LONG-FORM SCRIPTS:
1. **NO SUMMARIZATION**: Translate the entire script. Do not skip or condense any information.
2. **DESI STORYTELLING**: The output should sound like a native Indian storyteller or YouTuber. Use a mix of Hindi and English (Hinglish) that feels authentic to daily conversation and social media content.
3. **EMOTIONAL RESONANCE**: Capture the excitement, humor, or seriousness of the original US script.
4. **NATURAL FLOW**: The text should be easy to read aloud. Avoid overly bookish or "Shuddh" Hindi unless the context demands it. Use popular Hinglish terms where appropriate.
5. **PUNCTUATION**: Maintain correct punctuation to guide the flow of reading.

Your goal is a script that connects instantly with an Indian audience.
''\<close>

text \<open>
  The remote model is outside the repository. One call of
  \<open>ai.models.generateContentStream\<close> receives the request below and answers with a
  finite run of chunks that either ends or breaks off with an error (a call that is
  rejected at once is the run of no chunks that breaks off). The getter \<open>chunk.text\<close>
  is a string or \<open>undefined\<close>.
\<close>

record GenerateContentParameters =
  model :: js_string
  contents :: js_string
  systemInstruction :: js_string
  temperature :: rat

record GenerateContentResponse =
  chunk_text :: "js_string option"

datatype stream_end = EndOfStream | StreamError

type_synonym remote = "GenerateContentParameters \<Rightarrow> GenerateContentResponse list \<times> stream_end"

text \<open>
  What the async generator \<open>translateTextStream\<close> does when it is driven to its end:
  the requests it sent, the fragments it yielded in order, and whether it returned or
  threw (and then the message of the \<open>Error\<close> it threw).
\<close>

datatype completion = Returned | Thrown js_string

record text_stream =
  calls :: "GenerateContentParameters list"
  fragments :: "js_string list"
  outcome :: completion

text \<open>The loop \<open>for await (const chunk of response) if (chunk.text) yield chunk.text\<close>.\<close>

fun yield_chunks :: "GenerateContentResponse list \<Rightarrow> js_string list" where
  "yield_chunks [] = []"
| "yield_chunks (chunk # response) =
     (case chunk_text chunk of
        None \<Rightarrow> yield_chunks response
      | Some t \<Rightarrow> if t \<noteq> [] then t # yield_chunks response else yield_chunks response)"

definition translateTextStream ::
    "js_string \<Rightarrow> TranslationDirection \<Rightarrow> remote \<Rightarrow> text_stream" where
  "translateTextStream text direction ai =
     (if text = [] \<or> trim text = [] then \<lparr>calls = [], fragments = [], outcome = Returned\<rparr>
      else
        let systemInstruction =
              (if direction = HI_TO_EN then SYSTEM_INSTRUCTION_HI_TO_EN
               else SYSTEM_INSTRUCTION_EN_TO_HI);
            request = \<lparr>model = js ''gemini-2.5-flash'', contents = text,
                       systemInstruction = systemInstruction, temperature = 4 / 10\<rparr>;
            (response, ending) = ai request
        in \<lparr>calls = [request],
            fragments = yield_chunks response,
            outcome = (case ending of
                         EndOfStream \<Rightarrow> Returned
                       | StreamError \<Rightarrow> Thrown (js ''Connection interrupted. Please try again.''))\<rparr>)"

section \<open>services/storage.ts\<close>

text \<open>
  The item stored under \<open>DATA_KEY\<close> is the JSON text of an object whose fields
  \<open>scripts\<close> and \<open>history\<close> may each be absent; \<open>None\<close> is the key with no item.
  Strings and integers survive \<open>JSON.parse (JSON.stringify x)\<close> unchanged, so the item
  is kept here as the object it parses to. The argument of \<open>saveData\<close> has the same
  shape: a field that is \<open>None\<close> is a field the caller left out.
\<close>

record AppData =
  data_scripts :: "Script list option"
  data_history :: "TranslationHistoryItem list option"

definition getData :: "AppData option \<Rightarrow> AppData" where
  "getData item =
     (case item of
        None \<Rightarrow> \<lparr>data_scripts = Some [], data_history = Some []\<rparr>
      | Some data \<Rightarrow> data)"

text \<open>The object spread \<open>{...currentData, ...data}\<close>: a field of \<open>data\<close> wins.\<close>

definition saveData :: "AppData \<Rightarrow> AppData option \<Rightarrow> AppData option" where
  "saveData data item =
     (let currentData = getData item;
          newData = \<lparr>data_scripts = (case data_scripts data of
                                        Some v \<Rightarrow> Some v
                                      | None \<Rightarrow> data_scripts currentData),
                     data_history = (case data_history data of
                                        Some v \<Rightarrow> Some v
                                      | None \<Rightarrow> data_history currentData)\<rparr>
      in Some newData)"

text \<open>\<open>Array.prototype.findIndex\<close>, with \<open>None\<close> for the result \<open>-1\<close>.\<close>

fun findIndex :: "('a \<Rightarrow> bool) \<Rightarrow> 'a list \<Rightarrow> nat option" where
  "findIndex P [] = None"
| "findIndex P (x # xs) = (if P x then Some 0 else map_option Suc (findIndex P xs))"

definition storage_saveScript :: "Script \<Rightarrow> AppData option \<Rightarrow> AppData option" where
  "storage_saveScript script item =
     (let data = getData item;
          scripts = (case data_scripts data of Some v \<Rightarrow> v | None \<Rightarrow> []);
          scripts' = (case findIndex (\<lambda>s. script_id s = script_id script) scripts of
                        Some index \<Rightarrow> scripts[index := script]
                      | None \<Rightarrow> script # scripts)
      in saveData \<lparr>data_scripts = Some scripts', data_history = None\<rparr> item)"

definition storage_deleteScript :: "js_string \<Rightarrow> AppData option \<Rightarrow> AppData option" where
  "storage_deleteScript scriptId item =
     (let data = getData item;
          scripts = filter (\<lambda>s. script_id s \<noteq> scriptId)
                      (case data_scripts data of Some v \<Rightarrow> v | None \<Rightarrow> [])
      in saveData \<lparr>data_scripts = Some scripts, data_history = None\<rparr> item)"

section \<open>App.tsx\<close>

text \<open>
  The state of the \<open>App\<close> component that its handlers read and write, the item in
  \<open>localStorage\<close>, and a log of what the handlers did, in order: every call of a
  state setter (with the value it set) and every request sent to the remote model.
  Presentation state (the view, the panels, the gradient) is left out.
\<close>

datatype event =
    SetInputText js_string
  | SetOutputText js_string
  | SetDirection TranslationDirection
  | SetStatus TranslationStatus
  | SetHistory "TranslationHistoryItem list"
  | AddToast js_string ToastType
  | RemoteCall GenerateContentParameters

record app_state =
  inputText :: js_string
  outputText :: js_string
  direction :: TranslationDirection
  status :: TranslationStatus
  history :: "TranslationHistoryItem list"
  toasts :: "ToastMessage list"
  scripts :: "Script list"
  currentScript :: "Script option"
  localStorage :: "AppData option"
  trace :: "event list"

text \<open>The values of \<open>Math.random\<close> (through \<open>generateId\<close>) and \<open>Date.now\<close> in one handler run.\<close>

record env =
  generateId :: js_string
  Date_now :: int

definition initial_state :: app_state where
  "initial_state =
     \<lparr>inputText = [], outputText = [], direction = HI_TO_EN, status = IDLE, history = [],
      toasts = [], scripts = [], currentScript = None, localStorage = None, trace = []\<rparr>"

definition log_event :: "event \<Rightarrow> app_state \<Rightarrow> app_state" where
  "log_event ev s = s\<lparr>trace := trace s @ [ev]\<rparr>"

definition setInputText :: "js_string \<Rightarrow> app_state \<Rightarrow> app_state" where
  "setInputText v s = log_event (SetInputText v) (s\<lparr>inputText := v\<rparr>)"

definition setOutputText :: "js_string \<Rightarrow> app_state \<Rightarrow> app_state" where
  "setOutputText v s = log_event (SetOutputText v) (s\<lparr>outputText := v\<rparr>)"

definition setStatus :: "TranslationStatus \<Rightarrow> app_state \<Rightarrow> app_state" where
  "setStatus v s = log_event (SetStatus v) (s\<lparr>status := v\<rparr>)"

text \<open>The setters below are called with an updater \<open>prev => ...\<close>.\<close>

definition setDirection ::
    "(TranslationDirection \<Rightarrow> TranslationDirection) \<Rightarrow> app_state \<Rightarrow> app_state" where
  "setDirection f s = log_event (SetDirection (f (direction s))) (s\<lparr>direction := f (direction s)\<rparr>)"

definition setHistory ::
    "(TranslationHistoryItem list \<Rightarrow> TranslationHistoryItem list) \<Rightarrow> app_state \<Rightarrow> app_state" where
  "setHistory f s = log_event (SetHistory (f (history s))) (s\<lparr>history := f (history s)\<rparr>)"

definition setScripts :: "(Script list \<Rightarrow> Script list) \<Rightarrow> app_state \<Rightarrow> app_state" where
  "setScripts f s = s\<lparr>scripts := f (scripts s)\<rparr>"

definition setCurrentScript :: "Script option \<Rightarrow> app_state \<Rightarrow> app_state" where
  "setCurrentScript v s = s\<lparr>currentScript := v\<rparr>"

text \<open>
  \<open>addToast\<close> appends the toast; the timer that removes it three seconds later is not
  part of the handler's run.
\<close>

definition addToast :: "env \<Rightarrow> js_string \<Rightarrow> ToastType \<Rightarrow> app_state \<Rightarrow> app_state" where
  "addToast e msg type s =
     log_event (AddToast msg type)
       (s\<lparr>toasts := toasts s @ [\<lparr>toast_id = generateId e, toast_type = type, message = msg\<rparr>]\<rparr>)"

text \<open>
  The loop \<open>for await (const chunk of stream) { accumulatedText += chunk;
  setOutputText(accumulatedText) }\<close> over the fragments the stream yields; it returns
  \<open>accumulatedText\<close> with the state.
\<close>

fun for_await :: "js_string list \<Rightarrow> js_string \<Rightarrow> app_state \<Rightarrow> js_string \<times> app_state" where
  "for_await [] accumulatedText s = (accumulatedText, s)"
| "for_await (chunk # stream) accumulatedText s =
     for_await stream (accumulatedText @ chunk) (setOutputText (accumulatedText @ chunk) s)"

text \<open>
  \<open>handleTranslate\<close>. Calling the async generator function only creates the generator:
  its body, and with it the request to the remote model, runs when the loop asks for
  the first fragment, which is after \<open>setStatus(TranslationStatus.STREAMING)\<close>.
  \<open>inputText\<close> and \<open>direction\<close> are the values the handler closed over when it was
  called. \<open>console.error\<close> changes nothing and is left out.
\<close>

definition handleTranslate :: "remote \<Rightarrow> env \<Rightarrow> app_state \<Rightarrow> app_state" where
  "handleTranslate ai e s =
     (if trim (inputText s) = [] then addToast e (js ''Please enter text'') Toast_error s
      else
        let s1 = setOutputText [] (setStatus LOADING s);
            stream = translateTextStream (inputText s) (direction s) ai;
            s2 = setStatus STREAMING s1;
            s3 = foldl (\<lambda>st request. log_event (RemoteCall request) st) s2 (calls stream);
            (accumulatedText, s4) = for_await (fragments stream) [] s3
        in (case outcome stream of
              Returned \<Rightarrow>
                let s5 = setStatus SUCCESS s4;
                    newItem = \<lparr>item_id = generateId e, original = inputText s,
                               translated = accumulatedText, timestamp = Date_now e,
                               item_direction = direction s\<rparr>
                in setHistory (\<lambda>prev. take 50 (newItem # prev)) s5
            | Thrown error \<Rightarrow>
                addToast e (js ''Translation failed'') Toast_error (setStatus ERROR s4)))"

definition handleSwap :: "app_state \<Rightarrow> app_state" where
  "handleSwap s =
     (let s1 = setDirection (\<lambda>prev. if prev = HI_TO_EN then EN_TO_HI else HI_TO_EN) s;
          temp = inputText s;
          s2 = setInputText (outputText s) s1;
          s3 = setOutputText temp s2
      in if outputText s = [] \<and> temp = [] then setStatus IDLE s3 else setStatus SUCCESS s3)"

text \<open>\<open>loadData\<close>, run once when the component mounts. An array is truthy, also when empty.\<close>

definition loadData :: "app_state \<Rightarrow> app_state" where
  "loadData s =
     (let data = getData (localStorage s);
          s1 = (case data_history data of Some h \<Rightarrow> setHistory (\<lambda>prev. h) s | None \<Rightarrow> s)
      in (case data_scripts data of Some v \<Rightarrow> setScripts (\<lambda>prev. v) s1 | None \<Rightarrow> s1))"

text \<open>The effect on \<open>[history]\<close>: \<open>if (history.length > 0) storageService.saveData({ history })\<close>.\<close>

definition saveHistoryEffect :: "app_state \<Rightarrow> app_state" where
  "saveHistoryEffect s =
     (if length (history s) > 0
      then s\<lparr>localStorage :=
               saveData \<lparr>data_scripts = None, data_history = Some (history s)\<rparr> (localStorage s)\<rparr>
      else s)"

text \<open>The button of the history panel: \<open>setHistory([]); storageService.saveData({ history: [] })\<close>.\<close>

definition clearHistory :: "app_state \<Rightarrow> app_state" where
  "clearHistory s =
     (let s1 = setHistory (\<lambda>prev. []) s
      in s1\<lparr>localStorage :=
               saveData \<lparr>data_scripts = None, data_history = Some []\<rparr> (localStorage s1)\<rparr>)"

text \<open>A click on an entry of the history panel.\<close>

definition selectHistoryItem :: "TranslationHistoryItem \<Rightarrow> app_state \<Rightarrow> app_state" where
  "selectHistoryItem item s = setOutputText (translated item) (setInputText (original item) s)"

definition createNewScript :: "env \<Rightarrow> app_state \<Rightarrow> app_state" where
  "createNewScript e s =
     setCurrentScript
       (Some \<lparr>script_id = generateId e, title = js ''Untitled Script'',
              content = js ''<p>Start writing your script here...</p>'',
              lastModified = Date_now e\<rparr>) s"

definition saveScript :: "Script \<Rightarrow> app_state \<Rightarrow> app_state" where
  "saveScript updatedScript s =
     (let s1 = s\<lparr>localStorage := storage_saveScript updatedScript (localStorage s)\<rparr>
      in setScripts
           (\<lambda>prev. case findIndex (\<lambda>x. script_id x = script_id updatedScript) prev of
                      Some idx \<Rightarrow> prev[idx := updatedScript]
                    | None \<Rightarrow> updatedScript # prev) s1)"

text \<open>\<open>deleteScript\<close>; \<open>confirmed\<close> is the answer to the \<open>confirm\<close> dialog.\<close>

definition deleteScript :: "env \<Rightarrow> bool \<Rightarrow> js_string \<Rightarrow> app_state \<Rightarrow> app_state" where
  "deleteScript e confirmed scriptId s =
     (if confirmed then
        let s1 = s\<lparr>localStorage := storage_deleteScript scriptId (localStorage s)\<rparr>;
            s2 = setScripts (filter (\<lambda>x. script_id x \<noteq> scriptId)) s1;
            s3 = (case currentScript s of
                    Some c \<Rightarrow> if script_id c = scriptId then setCurrentScript None s2 else s2
                  | None \<Rightarrow> s2)
        in addToast e (js ''Script deleted'') Toast_info s3
      else s)"

text \<open>
  The states the application can be in. It starts with no stored item; every handler
  above is a step, with any remote model, any identifier and clock value, and any
  argument; typing sets the input text; the history effect runs after a render; and
  reloading the page starts the component again over the item that is stored.
\<close>

inductive reachable :: "app_state \<Rightarrow> bool" where
  start: "reachable initial_state"
| reload: "reachable s \<Longrightarrow> reachable (initial_state\<lparr>localStorage := localStorage s\<rparr>)"
| mount: "reachable s \<Longrightarrow> reachable (loadData s)"
| effect: "reachable s \<Longrightarrow> reachable (saveHistoryEffect s)"
| typing: "reachable s \<Longrightarrow> reachable (setInputText v s)"
| translate: "reachable s \<Longrightarrow> reachable (handleTranslate ai e s)"
| swap: "reachable s \<Longrightarrow> reachable (handleSwap s)"
| clear: "reachable s \<Longrightarrow> reachable (clearHistory s)"
| select: "reachable s \<Longrightarrow> item \<in> set (history s) \<Longrightarrow> reachable (selectHistoryItem item s)"
| new_script: "reachable s \<Longrightarrow> reachable (createNewScript e s)"
| save_script: "reachable s \<Longrightarrow> reachable (saveScript script s)"
| delete_script: "reachable s \<Longrightarrow> reachable (deleteScript e confirmed scriptId s)"

text \<open>
  What the loop publishes, one after the other, from the text accumulated so far and
  the fragments still to come: the running concatenations.
\<close>

fun partial_results :: "js_string \<Rightarrow> js_string list \<Rightarrow> js_string list" where
  "partial_results acc [] = []"
| "partial_results acc (f # fs) = (acc @ f) # partial_results (acc @ f) fs"

text \<open>What one handler run appended to the log, and the parts of it the properties read.\<close>

definition run_events :: "app_state \<Rightarrow> app_state \<Rightarrow> event list" where
  "run_events s s' = drop (length (trace s)) (trace s')"

definition status_updates :: "event list \<Rightarrow> TranslationStatus list" where
  "status_updates evs = concat (map (\<lambda>ev. case ev of SetStatus v \<Rightarrow> [v] | _ \<Rightarrow> []) evs)"

definition published :: "event list \<Rightarrow> js_string list" where
  "published evs = concat (map (\<lambda>ev. case ev of SetOutputText v \<Rightarrow> [v] | _ \<Rightarrow> []) evs)"

definition history_updates :: "event list \<Rightarrow> TranslationHistoryItem list list" where
  "history_updates evs = concat (map (\<lambda>ev. case ev of SetHistory v \<Rightarrow> [v] | _ \<Rightarrow> []) evs)"

definition remote_calls :: "event list \<Rightarrow> GenerateContentParameters list" where
  "remote_calls evs = concat (map (\<lambda>ev. case ev of RemoteCall v \<Rightarrow> [v] | _ \<Rightarrow> []) evs)"

text \<open>An input to try the handlers on: a panel holding "namaste", and an answer in four chunks.\<close>

definition example_state :: app_state where
  "example_state = initial_state\<lparr>inputText := js ''namaste''\<rparr>"

definition example_env :: env where
  "example_env = \<lparr>generateId = js ''k3x9q2m1a'', Date_now = 1700000000000\<rparr>"

definition example_chunks :: "GenerateContentResponse list" where
  "example_chunks =
     [\<lparr>chunk_text = Some (js ''Hel'')\<rparr>, \<lparr>chunk_text = None\<rparr>,
      \<lparr>chunk_text = Some []\<rparr>, \<lparr>chunk_text = Some (js ''lo'')\<rparr>]"

text \<open>
  A panel whose history is full: "namaste" is typed and translated fifty times, the
  first time under another identifier and clock value than the other forty-nine.
\<close>

definition example_remote :: remote where
  "example_remote = (\<lambda>request. (example_chunks, EndOfStream))"

definition example_old_env :: env where
  "example_old_env = \<lparr>generateId = js ''a0a0a0a0a'', Date_now = 1600000000000\<rparr>"

definition example_new_env :: env where
  "example_new_env = \<lparr>generateId = js ''z9z9z9z9z'', Date_now = 1800000000000\<rparr>"

definition example_full_state :: app_state where
  "example_full_state =
     (handleTranslate example_remote example_env ^^ 49)
       (handleTranslate example_remote example_old_env
          (setInputText (js ''namaste'') initial_state))"

section \<open>Strings\<close>

lemma trim_eq_Nil_iff: "trim s = [] \<longleftrightarrow> list_all isWhiteSpace s"
proof
  assume "trim s = []"
  then have "dropWhile isWhiteSpace (rev (dropWhile isWhiteSpace s)) = []"
    by (simp add: trim_def)
  then have "\<forall>c\<in>set (dropWhile isWhiteSpace s). isWhiteSpace c"
    by simp
  moreover have "dropWhile isWhiteSpace s \<noteq> [] \<Longrightarrow> \<not> isWhiteSpace (hd (dropWhile isWhiteSpace s))"
    by (rule hd_dropWhile)
  ultimately have "dropWhile isWhiteSpace s = []"
    by (metis hd_in_set)
  then show "list_all isWhiteSpace s"
    by (simp add: list_all_iff)
next
  assume "list_all isWhiteSpace s"
  then have "dropWhile isWhiteSpace s = []"
    by (simp add: list_all_iff)
  then show "trim s = []"
    by (simp add: trim_def del: dropWhile_eq_Nil_conv)
qed

lemma of_char_less: "(of_char c :: nat) < 2 ^ 16"
proof -
  have "(of_char c :: nat) = of_char c mod 256" by simp
  also have "\<dots> < 256" by (rule mod_less_divisor) simp
  finally have lt: "(of_char c :: nat) < 256" .
  show ?thesis by (rule less_trans [OF lt]) simp
qed

lemma code_unit_of_char_eq_iff:
  "(of_nat (of_char c) :: 16 word) = of_nat (of_char d) \<longleftrightarrow> c = d"
proof -
  have "take_bit 16 (of_char x :: nat) = of_char x" for x
    by (rule take_bit_nat_eq_self) (rule of_char_less)
  then show ?thesis
    by (simp add: word_of_nat_eq_iff)
qed

lemma js_eq_iff: "js a = js b \<longleftrightarrow> a = b"
  unfolding js_def
  by (rule inj_map_eq_map) (simp add: inj_on_def code_unit_of_char_eq_iff)

section \<open>The translation source\<close>

lemma yield_chunks_nonempty: "[] \<notin> set (yield_chunks response)"
  by (induction response) (auto split: option.splits)

lemma translateTextStream_blank:
  "trim text = [] \<Longrightarrow>
   translateTextStream text d ai = \<lparr>calls = [], fragments = [], outcome = Returned\<rparr>"
  by (simp add: translateTextStream_def)

lemma translateTextStream_nonblank:
  "trim text \<noteq> [] \<Longrightarrow>
   translateTextStream text d ai =
     \<lparr>calls = [\<lparr>model = js ''gemini-2.5-flash'', contents = text,
                systemInstruction = (if d = HI_TO_EN then SYSTEM_INSTRUCTION_HI_TO_EN
                                     else SYSTEM_INSTRUCTION_EN_TO_HI),
                temperature = 4 / 10\<rparr>],
      fragments = yield_chunks (fst (ai \<lparr>model = js ''gemini-2.5-flash'', contents = text,
                systemInstruction = (if d = HI_TO_EN then SYSTEM_INSTRUCTION_HI_TO_EN
                                     else SYSTEM_INSTRUCTION_EN_TO_HI),
                temperature = 4 / 10\<rparr>)),
      outcome = (case snd (ai \<lparr>model = js ''gemini-2.5-flash'', contents = text,
                systemInstruction = (if d = HI_TO_EN then SYSTEM_INSTRUCTION_HI_TO_EN
                                     else SYSTEM_INSTRUCTION_EN_TO_HI),
                temperature = 4 / 10\<rparr>) of
                   EndOfStream \<Rightarrow> Returned
                 | StreamError \<Rightarrow> Thrown (js ''Connection interrupted. Please try again.''))\<rparr>"
proof -
  assume nb: "trim text \<noteq> []"
  then have "text \<noteq> []"
    by (auto simp: trim_def)
  with nb show ?thesis
    by (simp add: translateTextStream_def Let_def split: prod.splits)
qed

text \<open>
  C5. For every empty or all-whitespace text, and either direction, the sequence that
  \<open>translateTextStream\<close> returns is empty at once: it yields no fragment, it ends
  without an error, and no request was sent to the remote model.
\<close>

theorem translateTextStream_blank_is_empty:
  "list_all isWhiteSpace text \<Longrightarrow>
   translateTextStream text d ai = \<lparr>calls = [], fragments = [], outcome = Returned\<rparr>"
  by (rule translateTextStream_blank) (simp add: trim_eq_Nil_iff)

theorem translateTextStream_blank_is_empty_witness:
  "list_all isWhiteSpace [0x20, 0x09, 0x0A, 0xA0] \<and>
   translateTextStream [0x20, 0x09, 0x0A, 0xA0] EN_TO_HI
       (\<lambda>request. ([\<lparr>chunk_text = Some (js ''x'')\<rparr>], StreamError)) =
     \<lparr>calls = [], fragments = [], outcome = Returned\<rparr>"
proof -
  have h: "list_all isWhiteSpace [0x20, 0x09, 0x0A, 0xA0]"
    by (simp add: isWhiteSpace_def)
  from translateTextStream_blank_is_empty [OF h] h show ?thesis
    by blast
qed

text \<open>
  C10. Every fragment that \<open>translateTextStream\<close> yields is a non-empty string: a chunk
  whose text is absent or empty is skipped, so the empty string is never among the
  fragments handed to the consumer.
\<close>

theorem fragments_never_empty:
  "[] \<notin> set (fragments (translateTextStream text d ai))"
  by (cases "trim text = []")
     (simp_all add: translateTextStream_blank translateTextStream_nonblank yield_chunks_nonempty)

text \<open>
  C8. For the same non-blank text, the request sent under \<open>HI_TO_EN\<close> carries the
  profile \<open>SYSTEM_INSTRUCTION_HI_TO_EN\<close> and the request sent under \<open>EN_TO_HI\<close> carries
  \<open>SYSTEM_INSTRUCTION_EN_TO_HI\<close>, whatever the text and the remote model are, and the two
  profiles differ.
\<close>

theorem direction_selects_profile:
  "\<not> list_all isWhiteSpace text \<Longrightarrow>
   map systemInstruction (calls (translateTextStream text HI_TO_EN ai)) =
     [SYSTEM_INSTRUCTION_HI_TO_EN] \<and>
   map systemInstruction (calls (translateTextStream text EN_TO_HI ai')) =
     [SYSTEM_INSTRUCTION_EN_TO_HI] \<and>
   SYSTEM_INSTRUCTION_HI_TO_EN \<noteq> SYSTEM_INSTRUCTION_EN_TO_HI"
proof -
  assume "\<not> list_all isWhiteSpace text"
  then have nb: "trim text \<noteq> []"
    by (simp add: trim_eq_Nil_iff)
  have "SYSTEM_INSTRUCTION_HI_TO_EN \<noteq> SYSTEM_INSTRUCTION_EN_TO_HI"
    by (simp add: SYSTEM_INSTRUCTION_HI_TO_EN_def SYSTEM_INSTRUCTION_EN_TO_HI_def js_eq_iff)
  with nb show ?thesis
    by (simp add: translateTextStream_nonblank)
qed

theorem direction_selects_profile_witness:
  "\<not> list_all isWhiteSpace (js ''namaste'') \<and>
   map systemInstruction
     (calls (translateTextStream (js ''namaste'') HI_TO_EN (\<lambda>request. ([], EndOfStream)))) =
     [SYSTEM_INSTRUCTION_HI_TO_EN] \<and>
   map systemInstruction
     (calls (translateTextStream (js ''namaste'') EN_TO_HI (\<lambda>request. ([], StreamError)))) =
     [SYSTEM_INSTRUCTION_EN_TO_HI] \<and>
   SYSTEM_INSTRUCTION_HI_TO_EN \<noteq> SYSTEM_INSTRUCTION_EN_TO_HI"
proof -
  have h: "\<not> list_all isWhiteSpace (js ''namaste'')"
    by (simp add: js_def isWhiteSpace_def)
  from direction_selects_profile [OF h] h show ?thesis
    by blast
qed

section \<open>The persisted record\<close>

text \<open>
  C6. Whatever is stored, \<open>saveData({scripts: [x]})\<close> followed by \<open>getData()\<close> returns
  \<open>scripts\<close> holding exactly \<open>x\<close>, and a \<open>history\<close> field equal to the one \<open>getData()\<close>
  returned before the save.
\<close>

theorem save_scripts_then_load:
  "data_scripts (getData (saveData \<lparr>data_scripts = Some [x], data_history = None\<rparr> item)) =
     Some [x] \<and>
   data_history (getData (saveData \<lparr>data_scripts = Some [x], data_history = None\<rparr> item)) =
     data_history (getData item)"
  by (simp add: getData_def saveData_def Let_def)

section \<open>Swapping the panels\<close>

text \<open>
  C9. In every state, \<open>handleSwap\<close> applied twice gives back the input text, the output
  text and the direction the panel had before.
\<close>

theorem swap_twice_restores:
  "inputText (handleSwap (handleSwap s)) = inputText s \<and>
   outputText (handleSwap (handleSwap s)) = outputText s \<and>
   direction (handleSwap (handleSwap s)) = direction s"
  by (cases "direction s")
     (simp_all add: handleSwap_def Let_def setDirection_def setInputText_def setOutputText_def
       setStatus_def log_event_def)

section \<open>The stream consumer\<close>

lemma concat_map_Nil: "concat (map (\<lambda>x. []) xs) = []"
  by (induction xs) simp_all

lemma fst_for_await: "fst (for_await fs acc s) = acc @ concat fs"
  by (induction fs arbitrary: acc s) simp_all

lemma snd_for_await:
  "snd (for_await fs acc s) =
     s\<lparr>outputText := (if fs = [] then outputText s else acc @ concat fs),
       trace := trace s @ map SetOutputText (partial_results acc fs)\<rparr>"
proof (induction fs arbitrary: acc s)
  case Nil
  show ?case by simp
next
  case (Cons f fs)
  have "snd (for_await (f # fs) acc s) =
        snd (for_await fs (acc @ f) (setOutputText (acc @ f) s))"
    by simp
  also have "\<dots> = (setOutputText (acc @ f) s)
      \<lparr>outputText := (if fs = [] then outputText (setOutputText (acc @ f) s)
                       else (acc @ f) @ concat fs),
        trace := trace (setOutputText (acc @ f) s) @
                 map SetOutputText (partial_results (acc @ f) fs)\<rparr>"
    by (rule Cons.IH)
  also have "\<dots> = s\<lparr>outputText := (if f # fs = [] then outputText s else acc @ concat (f # fs)),
       trace := trace s @ map SetOutputText (partial_results acc (f # fs))\<rparr>"
    by (simp add: setOutputText_def log_event_def)
  finally show ?case .
qed

lemma foldl_log_event:
  "foldl (\<lambda>st request. log_event (RemoteCall request) st) s cs =
     s\<lparr>trace := trace s @ map RemoteCall cs\<rparr>"
  by (induction cs arbitrary: s) (simp_all add: log_event_def)

lemma handleTranslate_blank:
  "trim (inputText s) = [] \<Longrightarrow>
   handleTranslate ai e s =
     s\<lparr>toasts := toasts s @ [\<lparr>toast_id = generateId e, toast_type = Toast_error,
                               message = js ''Please enter text''\<rparr>],
       trace := trace s @ [AddToast (js ''Please enter text'') Toast_error]\<rparr>"
  by (simp add: handleTranslate_def addToast_def log_event_def)

lemma handleTranslate_returned:
  assumes "trim (inputText s) \<noteq> []"
    and "outcome (translateTextStream (inputText s) (direction s) ai) = Returned"
  shows "handleTranslate ai e s =
     s\<lparr>outputText := concat (fragments (translateTextStream (inputText s) (direction s) ai)),
       status := SUCCESS,
       history := take 50 (\<lparr>item_id = generateId e, original = inputText s,
                     translated = concat (fragments (translateTextStream (inputText s) (direction s) ai)),
                     timestamp = Date_now e, item_direction = direction s\<rparr> # history s),
       trace := trace s @ [SetStatus LOADING, SetOutputText [], SetStatus STREAMING] @
                map RemoteCall (calls (translateTextStream (inputText s) (direction s) ai)) @
                map SetOutputText
                  (partial_results [] (fragments (translateTextStream (inputText s) (direction s) ai))) @
                [SetStatus SUCCESS,
                 SetHistory (take 50 (\<lparr>item_id = generateId e, original = inputText s,
                     translated = concat (fragments (translateTextStream (inputText s) (direction s) ai)),
                     timestamp = Date_now e, item_direction = direction s\<rparr> # history s))]\<rparr>"
  using assms
  apply (simp add: handleTranslate_def Let_def split_beta fst_for_await snd_for_await
        foldl_log_event)
  apply (simp add: setStatus_def setOutputText_def setHistory_def log_event_def)
  done

lemma handleTranslate_thrown:
  assumes "trim (inputText s) \<noteq> []"
    and "outcome (translateTextStream (inputText s) (direction s) ai) = Thrown err"
  shows "handleTranslate ai e s =
     s\<lparr>outputText := concat (fragments (translateTextStream (inputText s) (direction s) ai)),
       status := ERROR,
       toasts := toasts s @ [\<lparr>toast_id = generateId e, toast_type = Toast_error,
                               message = js ''Translation failed''\<rparr>],
       trace := trace s @ [SetStatus LOADING, SetOutputText [], SetStatus STREAMING] @
                map RemoteCall (calls (translateTextStream (inputText s) (direction s) ai)) @
                map SetOutputText
                  (partial_results [] (fragments (translateTextStream (inputText s) (direction s) ai))) @
                [SetStatus ERROR, AddToast (js ''Translation failed'') Toast_error]\<rparr>"
  using assms
  apply (simp add: handleTranslate_def Let_def split_beta fst_for_await snd_for_await
        foldl_log_event)
  apply (simp add: setStatus_def setOutputText_def addToast_def log_event_def)
  done


lemma length_partial_results: "length (partial_results acc fs) = length fs"
  by (induction fs arbitrary: acc) simp_all

lemma nth_partial_results:
  "n < length fs \<Longrightarrow> partial_results acc fs ! n = acc @ concat (take (Suc n) fs)"
proof (induction fs arbitrary: acc n)
  case Nil
  then show ?case by simp
next
  case (Cons f fs)
  then show ?case by (cases n) simp_all
qed

lemma last_partial_results: "last (acc # partial_results acc fs) = acc @ concat fs"
  by (induction fs arbitrary: acc) simp_all

lemma run_events_append: "trace s' = trace s @ evs \<Longrightarrow> run_events s s' = evs"
  by (simp add: run_events_def)

lemma run_events_returned:
  assumes "trim (inputText s) \<noteq> []"
    and "outcome (translateTextStream (inputText s) (direction s) ai) = Returned"
  shows "run_events s (handleTranslate ai e s) =
           [SetStatus LOADING, SetOutputText [], SetStatus STREAMING] @
           map RemoteCall (calls (translateTextStream (inputText s) (direction s) ai)) @
           map SetOutputText
             (partial_results [] (fragments (translateTextStream (inputText s) (direction s) ai))) @
           [SetStatus SUCCESS,
            SetHistory (take 50 (\<lparr>item_id = generateId e, original = inputText s,
                translated = concat (fragments (translateTextStream (inputText s) (direction s) ai)),
                timestamp = Date_now e, item_direction = direction s\<rparr> # history s))]"
  by (rule run_events_append) (simp add: handleTranslate_returned [OF assms])

lemma run_events_thrown:
  assumes "trim (inputText s) \<noteq> []"
    and "outcome (translateTextStream (inputText s) (direction s) ai) = Thrown err"
  shows "run_events s (handleTranslate ai e s) =
           [SetStatus LOADING, SetOutputText [], SetStatus STREAMING] @
           map RemoteCall (calls (translateTextStream (inputText s) (direction s) ai)) @
           map SetOutputText
             (partial_results [] (fragments (translateTextStream (inputText s) (direction s) ai))) @
           [SetStatus ERROR, AddToast (js ''Translation failed'') Toast_error]"
  by (rule run_events_append) (simp add: handleTranslate_thrown [OF assms])

lemma run_events_blank:
  "trim (inputText s) = [] \<Longrightarrow>
   run_events s (handleTranslate ai e s) = [AddToast (js ''Please enter text'') Toast_error]"
  by (rule run_events_append) (simp add: handleTranslate_blank)

lemma example_nonblank: "\<not> list_all isWhiteSpace (inputText example_state)"
  by (simp add: example_state_def js_def isWhiteSpace_def)

lemma example_trim: "trim (inputText example_state) \<noteq> []"
  using example_nonblank by (simp add: trim_eq_Nil_iff)

lemma example_fragments:
  "fragments (translateTextStream (inputText example_state) (direction example_state)
      (\<lambda>request. (example_chunks, ending))) = [js ''Hel'', js ''lo'']"
  by (simp add: translateTextStream_nonblank [OF example_trim] example_chunks_def js_def)

lemma example_outcome_ok:
  "outcome (translateTextStream (inputText example_state) (direction example_state)
      (\<lambda>request. (cs, EndOfStream))) = Returned"
  by (simp add: translateTextStream_nonblank [OF example_trim])

lemma example_outcome_error:
  "outcome (translateTextStream (inputText example_state) (direction example_state)
      (\<lambda>request. (cs, StreamError))) = Thrown (js ''Connection interrupted. Please try again.'')"
  by (simp add: translateTextStream_nonblank [OF example_trim])

lemma hello: "js ''Hel'' @ js ''lo'' = js ''Hello''"
  by (simp add: js_def)

text \<open>
  C1. For every non-blank input text, when the translation source yields at least one
  fragment and ends without an error, the run ends with the status \<open>SUCCESS\<close> (after
  \<open>LOADING\<close> and \<open>STREAMING\<close>), the output text and the last published result are the
  concatenation of all fragments in the order they arrived, and the history is set
  exactly once: to the old history with one new record at its head, made from the
  input text of the request and that accumulated text (cut to 50 entries).
\<close>

theorem translate_success:
  assumes "\<not> list_all isWhiteSpace (inputText s)"
    and "outcome (translateTextStream (inputText s) (direction s) ai) = Returned"
    and "fragments (translateTextStream (inputText s) (direction s) ai) \<noteq> []"
  shows "status (handleTranslate ai e s) = SUCCESS \<and>
         status_updates (run_events s (handleTranslate ai e s)) = [LOADING, STREAMING, SUCCESS] \<and>
         outputText (handleTranslate ai e s) =
           concat (fragments (translateTextStream (inputText s) (direction s) ai)) \<and>
         last (published (run_events s (handleTranslate ai e s))) =
           concat (fragments (translateTextStream (inputText s) (direction s) ai)) \<and>
         history_updates (run_events s (handleTranslate ai e s)) =
           [take 50 (\<lparr>item_id = generateId e, original = inputText s,
               translated = concat (fragments (translateTextStream (inputText s) (direction s) ai)),
               timestamp = Date_now e, item_direction = direction s\<rparr> # history s)] \<and>
         history (handleTranslate ai e s) =
           take 50 (\<lparr>item_id = generateId e, original = inputText s,
               translated = concat (fragments (translateTextStream (inputText s) (direction s) ai)),
               timestamp = Date_now e, item_direction = direction s\<rparr> # history s)"
proof -
  from assms(1) have nb: "trim (inputText s) \<noteq> []"
    by (simp add: trim_eq_Nil_iff)
  have pub: "published (run_events s (handleTranslate ai e s)) =
      [] # partial_results [] (fragments (translateTextStream (inputText s) (direction s) ai))"
    by (simp add: run_events_returned [OF nb assms(2)] published_def comp_def concat_map_Nil)
  have "last (published (run_events s (handleTranslate ai e s))) =
      concat (fragments (translateTextStream (inputText s) (direction s) ai))"
    unfolding pub using last_partial_results [of "[]"] by simp
  moreover have "status_updates (run_events s (handleTranslate ai e s)) = [LOADING, STREAMING, SUCCESS]"
    by (simp add: run_events_returned [OF nb assms(2)] status_updates_def comp_def concat_map_Nil)
  moreover have "history_updates (run_events s (handleTranslate ai e s)) =
           [take 50 (\<lparr>item_id = generateId e, original = inputText s,
               translated = concat (fragments (translateTextStream (inputText s) (direction s) ai)),
               timestamp = Date_now e, item_direction = direction s\<rparr> # history s)]"
    by (simp add: run_events_returned [OF nb assms(2)] history_updates_def comp_def concat_map_Nil)
  ultimately show ?thesis
    by (simp add: handleTranslate_returned [OF nb assms(2)])
qed

theorem translate_success_witness:
  "\<not> list_all isWhiteSpace (inputText example_state) \<and>
   outcome (translateTextStream (inputText example_state) (direction example_state)
      (\<lambda>request. (example_chunks, EndOfStream))) = Returned \<and>
   fragments (translateTextStream (inputText example_state) (direction example_state)
      (\<lambda>request. (example_chunks, EndOfStream))) = [js ''Hel'', js ''lo''] \<and>
   status (handleTranslate (\<lambda>request. (example_chunks, EndOfStream)) example_env example_state)
     = SUCCESS \<and>
   outputText (handleTranslate (\<lambda>request. (example_chunks, EndOfStream)) example_env example_state)
     = js ''Hello'' \<and>
   history (handleTranslate (\<lambda>request. (example_chunks, EndOfStream)) example_env example_state)
     = [\<lparr>item_id = js ''k3x9q2m1a'', original = js ''namaste'', translated = js ''Hello'',
         timestamp = 1700000000000, item_direction = HI_TO_EN\<rparr>]"
proof -
  have h3: "fragments (translateTextStream (inputText example_state) (direction example_state)
      (\<lambda>request. (example_chunks, EndOfStream))) \<noteq> []"
    by (simp add: example_fragments)
  from translate_success [OF example_nonblank example_outcome_ok h3, of example_env]
  show ?thesis
    by (simp add: example_nonblank example_outcome_ok example_fragments hello)
       (simp add: example_state_def example_env_def initial_state_def)
qed

text \<open>
  C2. When the translation source throws after it has yielded some fragments (none,
  \<open>f1\<close> and \<open>f2\<close>, or any other run of them), the run ends with the status \<open>ERROR\<close>,
  the output text and the last published result are the concatenation of the
  fragments that arrived before the failure, and the history is neither set nor
  stored.
\<close>

theorem translate_failure:
  assumes "\<not> list_all isWhiteSpace (inputText s)"
    and "outcome (translateTextStream (inputText s) (direction s) ai) = Thrown err"
  shows "status (handleTranslate ai e s) = ERROR \<and>
         outputText (handleTranslate ai e s) =
           concat (fragments (translateTextStream (inputText s) (direction s) ai)) \<and>
         last (published (run_events s (handleTranslate ai e s))) =
           concat (fragments (translateTextStream (inputText s) (direction s) ai)) \<and>
         history_updates (run_events s (handleTranslate ai e s)) = [] \<and>
         history (handleTranslate ai e s) = history s \<and>
         localStorage (handleTranslate ai e s) = localStorage s"
proof -
  from assms(1) have nb: "trim (inputText s) \<noteq> []"
    by (simp add: trim_eq_Nil_iff)
  have pub: "published (run_events s (handleTranslate ai e s)) =
      [] # partial_results [] (fragments (translateTextStream (inputText s) (direction s) ai))"
    by (simp add: run_events_thrown [OF nb assms(2)] published_def comp_def concat_map_Nil)
  have "last (published (run_events s (handleTranslate ai e s))) =
      concat (fragments (translateTextStream (inputText s) (direction s) ai))"
    unfolding pub using last_partial_results [of "[]"] by simp
  moreover have "history_updates (run_events s (handleTranslate ai e s)) = []"
    by (simp add: run_events_thrown [OF nb assms(2)] history_updates_def comp_def concat_map_Nil)
  ultimately show ?thesis
    by (simp add: handleTranslate_thrown [OF nb assms(2)])
qed

theorem translate_failure_witness:
  "\<not> list_all isWhiteSpace (inputText example_state) \<and>
   outcome (translateTextStream (inputText example_state) (direction example_state)
      (\<lambda>request. (example_chunks, StreamError))) =
     Thrown (js ''Connection interrupted. Please try again.'') \<and>
   fragments (translateTextStream (inputText example_state) (direction example_state)
      (\<lambda>request. (example_chunks, StreamError))) = [js ''Hel'', js ''lo''] \<and>
   status (handleTranslate (\<lambda>request. (example_chunks, StreamError)) example_env example_state)
     = ERROR \<and>
   outputText (handleTranslate (\<lambda>request. (example_chunks, StreamError)) example_env example_state)
     = js ''Hello'' \<and>
   last (published (run_events example_state
     (handleTranslate (\<lambda>request. (example_chunks, StreamError)) example_env example_state)))
     = js ''Hello'' \<and>
   history_updates (run_events example_state
     (handleTranslate (\<lambda>request. (example_chunks, StreamError)) example_env example_state))
     = [] \<and>
   history (handleTranslate (\<lambda>request. (example_chunks, StreamError)) example_env example_state)
     = []"
proof -
  from translate_failure [OF example_nonblank example_outcome_error, of example_chunks example_env]
  show ?thesis
    by (simp add: example_nonblank example_outcome_error example_fragments hello)
       (simp add: example_state_def initial_state_def)
qed

text \<open>
  C4. For an empty or whitespace-only input text, \<open>handleTranslate\<close> sends no request,
  adds the error toast "Please enter text", sets no status, and leaves every part of
  the state but the toasts as it was; a panel that was \<open>IDLE\<close> is still \<open>IDLE\<close>.
\<close>

theorem translate_blank:
  assumes "list_all isWhiteSpace (inputText s)"
  shows "remote_calls (run_events s (handleTranslate ai e s)) = [] \<and>
         run_events s (handleTranslate ai e s) = [AddToast (js ''Please enter text'') Toast_error] \<and>
         toasts (handleTranslate ai e s) =
           toasts s @ [\<lparr>toast_id = generateId e, toast_type = Toast_error,
                         message = js ''Please enter text''\<rparr>] \<and>
         status_updates (run_events s (handleTranslate ai e s)) = [] \<and>
         status (handleTranslate ai e s) = status s \<and>
         (handleTranslate ai e s)\<lparr>toasts := toasts s, trace := trace s\<rparr> = s"
proof -
  from assms have b: "trim (inputText s) = []"
    by (simp add: trim_eq_Nil_iff)
  show ?thesis
    unfolding run_events_blank [OF b]
    by (simp add: handleTranslate_blank [OF b] remote_calls_def status_updates_def)
qed

theorem translate_blank_witness:
  "list_all isWhiteSpace (inputText (initial_state\<lparr>inputText := [0x20, 0x0A, 0x09]\<rparr>)) \<and>
   status (initial_state\<lparr>inputText := [0x20, 0x0A, 0x09]\<rparr>) = IDLE \<and>
   remote_calls (run_events (initial_state\<lparr>inputText := [0x20, 0x0A, 0x09]\<rparr>)
     (handleTranslate (\<lambda>request. (example_chunks, EndOfStream)) example_env
        (initial_state\<lparr>inputText := [0x20, 0x0A, 0x09]\<rparr>))) = [] \<and>
   run_events (initial_state\<lparr>inputText := [0x20, 0x0A, 0x09]\<rparr>)
     (handleTranslate (\<lambda>request. (example_chunks, EndOfStream)) example_env
        (initial_state\<lparr>inputText := [0x20, 0x0A, 0x09]\<rparr>)) =
     [AddToast (js ''Please enter text'') Toast_error] \<and>
   status (handleTranslate (\<lambda>request. (example_chunks, EndOfStream)) example_env
        (initial_state\<lparr>inputText := [0x20, 0x0A, 0x09]\<rparr>)) = IDLE"
proof -
  have h: "list_all isWhiteSpace (inputText (initial_state\<lparr>inputText := [0x20, 0x0A, 0x09]\<rparr>))"
    by (simp add: isWhiteSpace_def)
  have idle: "status initial_state = IDLE"
    by (simp add: initial_state_def)
  from translate_blank [OF h, of "\<lambda>request. (example_chunks, EndOfStream)" example_env] h
  show ?thesis
    by (simp add: idle remote_calls_def)
qed

text \<open>
  C7, as the claim states it, fails: the transition to \<open>STREAMING\<close> does not wait for
  a fragment. When the remote model rejects the request at once, no fragment is ever
  yielded, and the status still passes through \<open>STREAMING\<close> on its way from \<open>LOADING\<close>
  to \<open>ERROR\<close>.
\<close>

theorem streaming_before_any_fragment_counterexample:
  "fragments (translateTextStream (inputText example_state) (direction example_state)
      (\<lambda>request. ([], StreamError))) = [] \<and>
   status_updates (run_events example_state
      (handleTranslate (\<lambda>request. ([], StreamError)) example_env example_state)) =
     [LOADING, STREAMING, ERROR] \<and>
   \<not> (STREAMING \<in> set (status_updates (run_events example_state
          (handleTranslate (\<lambda>request. ([], StreamError)) example_env example_state))) \<longrightarrow>
      fragments (translateTextStream (inputText example_state) (direction example_state)
        (\<lambda>request. ([], StreamError))) \<noteq> [])"
proof -
  have fr: "fragments (translateTextStream (inputText example_state) (direction example_state)
      (\<lambda>request. ([], StreamError))) = []"
    by (simp add: translateTextStream_nonblank [OF example_trim])
  have st: "status_updates (run_events example_state
      (handleTranslate (\<lambda>request. ([], StreamError)) example_env example_state)) =
     [LOADING, STREAMING, ERROR]"
    by (simp add: run_events_thrown [OF example_trim example_outcome_error]
          status_updates_def comp_def concat_map_Nil)
  show ?thesis
    unfolding st fr by simp
qed

text \<open>
  C7, as the code has it. In every run on a non-blank input text the handler sets
  \<open>LOADING\<close>, clears the output and sets \<open>STREAMING\<close> at once, before the request to
  the translation source is sent and so before any fragment has arrived; then the
  request is sent, each fragment is published, and the status becomes \<open>SUCCESS\<close> when
  the source ends normally and \<open>ERROR\<close> when it throws, also when it throws at once.
\<close>

theorem streaming_is_set_at_once:
  assumes "\<not> list_all isWhiteSpace (inputText s)"
  shows "run_events s (handleTranslate ai e s) =
           [SetStatus LOADING, SetOutputText [], SetStatus STREAMING] @
           map RemoteCall (calls (translateTextStream (inputText s) (direction s) ai)) @
           map SetOutputText
             (partial_results [] (fragments (translateTextStream (inputText s) (direction s) ai))) @
           (case outcome (translateTextStream (inputText s) (direction s) ai) of
              Returned \<Rightarrow>
                [SetStatus SUCCESS,
                 SetHistory (take 50 (\<lparr>item_id = generateId e, original = inputText s,
                   translated = concat (fragments (translateTextStream (inputText s) (direction s) ai)),
                   timestamp = Date_now e, item_direction = direction s\<rparr> # history s))]
            | Thrown err \<Rightarrow> [SetStatus ERROR, AddToast (js ''Translation failed'') Toast_error]) \<and>
         status_updates (run_events s (handleTranslate ai e s)) =
           [LOADING, STREAMING,
            (case outcome (translateTextStream (inputText s) (direction s) ai) of
               Returned \<Rightarrow> SUCCESS | Thrown err \<Rightarrow> ERROR)]"
proof -
  from assms have nb: "trim (inputText s) \<noteq> []"
    by (simp add: trim_eq_Nil_iff)
  show ?thesis
  proof (cases "outcome (translateTextStream (inputText s) (direction s) ai)")
    case Returned
    then show ?thesis
      by (simp add: run_events_returned [OF nb Returned] status_updates_def comp_def concat_map_Nil)
  next
    case (Thrown err)
    then show ?thesis
      by (simp add: run_events_thrown [OF nb Thrown] status_updates_def comp_def concat_map_Nil)
  qed
qed

theorem streaming_is_set_at_once_witness:
  "\<not> list_all isWhiteSpace (inputText example_state) \<and>
   run_events example_state
      (handleTranslate (\<lambda>request. (example_chunks, EndOfStream)) example_env example_state) =
     [SetStatus LOADING, SetOutputText [], SetStatus STREAMING,
      RemoteCall \<lparr>model = js ''gemini-2.5-flash'', contents = js ''namaste'',
                  systemInstruction = SYSTEM_INSTRUCTION_HI_TO_EN, temperature = 4 / 10\<rparr>,
      SetOutputText (js ''Hel''), SetOutputText (js ''Hello''), SetStatus SUCCESS,
      SetHistory [\<lparr>item_id = js ''k3x9q2m1a'', original = js ''namaste'',
                   translated = js ''Hello'', timestamp = 1700000000000,
                   item_direction = HI_TO_EN\<rparr>]] \<and>
   status_updates (run_events example_state
      (handleTranslate (\<lambda>request. (example_chunks, EndOfStream)) example_env example_state)) =
     [LOADING, STREAMING, SUCCESS]"
proof -
  have cs: "calls (translateTextStream (inputText example_state) (direction example_state)
      (\<lambda>request. (example_chunks, EndOfStream))) =
      [\<lparr>model = js ''gemini-2.5-flash'', contents = js ''namaste'',
        systemInstruction = SYSTEM_INSTRUCTION_HI_TO_EN, temperature = 4 / 10\<rparr>]"
    by (simp add: translateTextStream_nonblank [OF example_trim])
       (simp add: example_state_def initial_state_def)
  have env: "generateId example_env = js ''k3x9q2m1a''" "Date_now example_env = 1700000000000"
    by (simp_all add: example_env_def)
  have st: "inputText example_state = js ''namaste''" "direction example_state = HI_TO_EN"
      "history example_state = []"
    by (simp_all add: example_state_def initial_state_def)
  note run = streaming_is_set_at_once [OF example_nonblank,
      of "\<lambda>request. (example_chunks, EndOfStream)" example_env,
      unfolded example_fragments example_outcome_ok cs]
  have nb: "\<not> list_all isWhiteSpace (js ''namaste'')"
    by (simp add: js_def isWhiteSpace_def)
  from run show ?thesis
    by (simp add: nb hello env st status_updates_def)
qed

section \<open>The history store\<close>

lemma history_handleTranslate:
  "history (handleTranslate ai e s) =
     (if trim (inputText s) \<noteq> [] \<and>
         outcome (translateTextStream (inputText s) (direction s) ai) = Returned
      then take 50 (\<lparr>item_id = generateId e, original = inputText s,
               translated = concat (fragments (translateTextStream (inputText s) (direction s) ai)),
               timestamp = Date_now e, item_direction = direction s\<rparr> # history s)
      else history s)"
proof (cases "trim (inputText s) = []")
  case True
  then show ?thesis by (simp add: handleTranslate_blank)
next
  case nb: False
  show ?thesis
  proof (cases "outcome (translateTextStream (inputText s) (direction s) ai)")
    case Returned
    with nb show ?thesis by (simp add: handleTranslate_returned)
  next
    case (Thrown err)
    with nb show ?thesis by (simp add: handleTranslate_thrown)
  qed
qed

lemma localStorage_handleTranslate: "localStorage (handleTranslate ai e s) = localStorage s"
proof (cases "trim (inputText s) = []")
  case True
  then show ?thesis by (simp add: handleTranslate_blank)
next
  case nb: False
  show ?thesis
  proof (cases "outcome (translateTextStream (inputText s) (direction s) ai)")
    case Returned
    with nb show ?thesis by (simp add: handleTranslate_returned)
  next
    case (Thrown err)
    with nb show ?thesis by (simp add: handleTranslate_thrown)
  qed
qed

lemma data_history_saveData:
  "data_history (getData (saveData d item)) =
     (case data_history d of Some v \<Rightarrow> Some v | None \<Rightarrow> data_history (getData item))"
  by (simp add: saveData_def Let_def getData_def [of "Some x" for x] split: option.splits)

lemma data_history_storage_saveScript:
  "data_history (getData (storage_saveScript script item)) = data_history (getData item)"
  by (simp add: storage_saveScript_def Let_def data_history_saveData)

lemma data_history_storage_deleteScript:
  "data_history (getData (storage_deleteScript scriptId item)) = data_history (getData item)"
  by (simp add: storage_deleteScript_def Let_def data_history_saveData)

lemma reachable_history_bounded:
  "reachable s \<Longrightarrow>
   length (history s) \<le> 50 \<and>
   (case data_history (getData (localStorage s)) of None \<Rightarrow> True | Some h \<Rightarrow> length h \<le> 50)"
proof (induction rule: reachable.induct)
  case start
  show ?case by (simp add: initial_state_def getData_def)
next
  case (reload s)
  then show ?case by (simp add: initial_state_def)
next
  case (mount s)
  then show ?case
    by (auto simp: loadData_def Let_def setHistory_def setScripts_def log_event_def
          split: option.splits)
next
  case (effect s)
  then show ?case
    by (simp add: saveHistoryEffect_def data_history_saveData)
next
  case (typing s v)
  then show ?case by (simp add: setInputText_def log_event_def)
next
  case (translate s ai e)
  then show ?case
    by (simp add: history_handleTranslate localStorage_handleTranslate)
next
  case (swap s)
  then show ?case
    by (simp add: handleSwap_def Let_def setDirection_def setInputText_def setOutputText_def
          setStatus_def log_event_def)
next
  case (clear s)
  then show ?case
    by (simp add: clearHistory_def Let_def setHistory_def log_event_def data_history_saveData)
next
  case (select s item)
  then show ?case
    by (simp add: selectHistoryItem_def setInputText_def setOutputText_def log_event_def)
next
  case (new_script s e)
  then show ?case by (simp add: createNewScript_def setCurrentScript_def)
next
  case (save_script s script)
  then show ?case
    by (simp add: saveScript_def Let_def setScripts_def data_history_storage_saveScript)
next
  case (delete_script s e confirmed scriptId)
  then show ?case
    by (simp add: deleteScript_def Let_def setScripts_def setCurrentScript_def addToast_def
          log_event_def data_history_storage_deleteScript split: option.splits)
qed


lemma iterate_handleTranslate:
  assumes nb: "trim (inputText s) \<noteq> []"
    and ok: "outcome (translateTextStream (inputText s) (direction s) ai) = Returned"
    and r: "reachable s"
    and len: "n + length (history s) \<le> 50"
  shows "reachable ((handleTranslate ai e ^^ n) s) \<and>
         inputText ((handleTranslate ai e ^^ n) s) = inputText s \<and>
         direction ((handleTranslate ai e ^^ n) s) = direction s \<and>
         history ((handleTranslate ai e ^^ n) s) =
           replicate n \<lparr>item_id = generateId e, original = inputText s,
               translated = concat (fragments (translateTextStream (inputText s) (direction s) ai)),
               timestamp = Date_now e, item_direction = direction s\<rparr> @ history s"
  using len
proof (induction n)
  case 0
  show ?case using r by simp
next
  case (Suc n)
  let ?t = "(handleTranslate ai e ^^ n) s"
  from Suc have IH: "reachable ?t" "inputText ?t = inputText s" "direction ?t = direction s"
      "history ?t = replicate n \<lparr>item_id = generateId e, original = inputText s,
               translated = concat (fragments (translateTextStream (inputText s) (direction s) ai)),
               timestamp = Date_now e, item_direction = direction s\<rparr> @ history s"
    by simp_all
  have nb': "trim (inputText ?t) \<noteq> []"
    using nb IH(2) by simp
  have ok': "outcome (translateTextStream (inputText ?t) (direction ?t) ai) = Returned"
    using ok IH(2,3) by simp
  have step: "(handleTranslate ai e ^^ Suc n) s = handleTranslate ai e ?t"
    by simp
  have "reachable (handleTranslate ai e ?t)"
    using IH(1) by (rule reachable.translate)
  moreover have "inputText (handleTranslate ai e ?t) = inputText s"
    by (simp add: handleTranslate_returned [OF nb' ok'] IH(2))
  moreover have "direction (handleTranslate ai e ?t) = direction s"
    by (simp add: handleTranslate_returned [OF nb' ok'] IH(3))
  moreover have "history (handleTranslate ai e ?t) =
      replicate (Suc n) \<lparr>item_id = generateId e, original = inputText s,
               translated = concat (fragments (translateTextStream (inputText s) (direction s) ai)),
               timestamp = Date_now e, item_direction = direction s\<rparr> @ history s"
    using Suc.prems
    by (simp add: handleTranslate_returned [OF nb' ok'] IH(2,3,4))
  ultimately show ?case
    unfolding step by simp
qed


text \<open>
  C3. In every state the application can reach, the history holds at most 50 items,
  and so does the copy of it in the stored item.
  A translation that succeeds puts its record at the head; while the history holds
  fewer than 50 items nothing is dropped, and when it holds 50 the last, which is the
  oldest, is dropped and no other, so that 50 remain.
\<close>

theorem history_never_exceeds_50:
  assumes "reachable s"
  shows "length (history s) \<le> 50 \<and>
     (case data_history (getData (localStorage s)) of
        None \<Rightarrow> True
      | Some stored \<Rightarrow> length stored \<le> 50) \<and>
     (\<not> list_all isWhiteSpace (inputText s) \<and>
      outcome (translateTextStream (inputText s) (direction s) ai) = Returned \<longrightarrow>
        (length (history s) < 50 \<longrightarrow>
           history (handleTranslate ai e s) =
             \<lparr>item_id = generateId e, original = inputText s,
               translated = concat (fragments (translateTextStream (inputText s) (direction s) ai)),
               timestamp = Date_now e, item_direction = direction s\<rparr> # history s) \<and>
        (length (history s) = 50 \<longrightarrow>
           history (handleTranslate ai e s) =
             \<lparr>item_id = generateId e, original = inputText s,
               translated = concat (fragments (translateTextStream (inputText s) (direction s) ai)),
               timestamp = Date_now e, item_direction = direction s\<rparr> # butlast (history s) \<and>
           length (history (handleTranslate ai e s)) = 50) \<and>
        length (history (handleTranslate ai e s)) \<le> 50)"
proof -
  from assms have bound: "length (history s) \<le> 50"
    by (simp add: reachable_history_bounded)
  from assms have stored:
    "case data_history (getData (localStorage s)) of
       None \<Rightarrow> True
     | Some stored \<Rightarrow> length stored \<le> 50"
    by (simp add: reachable_history_bounded)
  have "take 49 (history s) = butlast (history s)" if "length (history s) = 50"
    using that by (simp add: butlast_conv_take)
  with bound stored show ?thesis
    by (simp add: history_handleTranslate trim_eq_Nil_iff)
qed

lemma example_full_state_facts:
  "reachable example_full_state \<and>
   inputText example_full_state = js ''namaste'' \<and>
   direction example_full_state = HI_TO_EN \<and>
   history example_full_state =
     replicate 49 \<lparr>item_id = js ''k3x9q2m1a'', original = js ''namaste'',
         translated = js ''Hello'', timestamp = 1700000000000, item_direction = HI_TO_EN\<rparr> @
     [\<lparr>item_id = js ''a0a0a0a0a'', original = js ''namaste'',
         translated = js ''Hello'', timestamp = 1600000000000, item_direction = HI_TO_EN\<rparr>]"
proof -
  let ?s0 = "setInputText (js ''namaste'') initial_state"
  let ?s1 = "handleTranslate example_remote example_old_env ?s0"
  have f0: "inputText ?s0 = js ''namaste''" "direction ?s0 = HI_TO_EN" "history ?s0 = []"
    by (simp_all add: setInputText_def log_event_def initial_state_def)
  have nb: "trim (js ''namaste'') \<noteq> []"
    using example_trim by (simp add: example_state_def)
  have str: "outcome (translateTextStream (js ''namaste'') HI_TO_EN example_remote) = Returned"
      "fragments (translateTextStream (js ''namaste'') HI_TO_EN example_remote) = [js ''Hel'', js ''lo'']"
    using example_outcome_ok [of example_chunks] example_fragments [of EndOfStream]
    by (simp_all add: example_state_def initial_state_def example_remote_def)
  have r0: "reachable ?s0"
    by (rule reachable.typing) (rule reachable.start)
  have r1: "reachable ?s1"
    using r0 by (rule reachable.translate)
  have nb0: "trim (inputText ?s0) \<noteq> []"
    using nb f0 by simp
  have ok0: "outcome (translateTextStream (inputText ?s0) (direction ?s0) example_remote) = Returned"
    using str f0 by simp
  have f1: "inputText ?s1 = js ''namaste''" "direction ?s1 = HI_TO_EN"
      "history ?s1 = [\<lparr>item_id = js ''a0a0a0a0a'', original = js ''namaste'',
         translated = js ''Hello'', timestamp = 1600000000000, item_direction = HI_TO_EN\<rparr>]"
    by (simp_all add: handleTranslate_returned [OF nb0 ok0] f0 str hello example_old_env_def)
  have nb1: "trim (inputText ?s1) \<noteq> []"
    using nb f1 by simp
  have ok1: "outcome (translateTextStream (inputText ?s1) (direction ?s1) example_remote) = Returned"
    using str f1 by simp
  have len: "49 + length (history ?s1) \<le> 50"
    using f1 by simp
  from iterate_handleTranslate [OF nb1 ok1 r1 len, of example_env]
  show ?thesis
    unfolding example_full_state_def
    by (simp add: f1 str hello example_env_def)
qed

theorem history_never_exceeds_50_witness:
  "reachable example_full_state \<and>
   \<not> list_all isWhiteSpace (inputText example_full_state) \<and>
   outcome (translateTextStream (inputText example_full_state) (direction example_full_state)
      example_remote) = Returned \<and>
   length (history example_full_state) = 50 \<and>
   last (history example_full_state) =
     \<lparr>item_id = js ''a0a0a0a0a'', original = js ''namaste'',
       translated = js ''Hello'', timestamp = 1600000000000, item_direction = HI_TO_EN\<rparr> \<and>
   history (handleTranslate example_remote example_new_env example_full_state) =
     \<lparr>item_id = js ''z9z9z9z9z'', original = js ''namaste'',
       translated = js ''Hello'', timestamp = 1800000000000, item_direction = HI_TO_EN\<rparr> #
     replicate 49 \<lparr>item_id = js ''k3x9q2m1a'', original = js ''namaste'',
       translated = js ''Hello'', timestamp = 1700000000000, item_direction = HI_TO_EN\<rparr> \<and>
   length (history (handleTranslate example_remote example_new_env example_full_state)) = 50"
proof -
  note f = example_full_state_facts
  have r: "reachable example_full_state"
    using f by simp
  have nbl: "\<not> list_all isWhiteSpace (js ''namaste'')"
    by (simp add: js_def isWhiteSpace_def)
  have str: "outcome (translateTextStream (js ''namaste'') HI_TO_EN example_remote) = Returned"
      "fragments (translateTextStream (js ''namaste'') HI_TO_EN example_remote) = [js ''Hel'', js ''lo'']"
    using example_outcome_ok [of example_chunks] example_fragments [of EndOfStream]
    by (simp_all add: example_state_def initial_state_def example_remote_def)
  from history_never_exceeds_50 [OF r, of example_remote example_new_env]
  show ?thesis
    by (simp add: f nbl str hello example_new_env_def)
qed

end
